theory Spec2Isabelle
  imports Complex_Main
begin

section \<open>Python values and strings\<close>

text \<open>
  The bulk upload of \<^verbatim>\<open>python/utilities/database.py\<close> (class \<^verbatim>\<open>OracleCommand\<close>) handles
  the cells of a data frame and the names of its columns. A cell is one of Python's scalars:
  \<^verbatim>\<open>None\<close>, a \<^verbatim>\<open>bool\<close>, an \<^verbatim>\<open>int\<close>, a \<^verbatim>\<open>str\<close> or a \<^verbatim>\<open>float\<close>. Of a float the code only
  observes whether it is the not-a-number value, so a float is either \<open>PyNaN\<close> or a number
  (the two infinities apart, which compare like any other non-NaN float to themselves).
\<close>

datatype pyfloat = PyNaN | PyInf bool | PyFinite real

datatype pyval = PyNone | PyBool bool | PyInt int | PyFloat pyfloat | PyStr string

text \<open>Python's \<^verbatim>\<open>==\<close> on floats: NaN equals nothing, itself included.\<close>

fun float_eq :: "pyfloat \<Rightarrow> pyfloat \<Rightarrow> bool" where
  "float_eq PyNaN _ = False"
| "float_eq _ PyNaN = False"
| "float_eq (PyInf s) (PyInf t) = (s = t)"
| "float_eq (PyFinite x) (PyFinite y) = (x = y)"
| "float_eq _ _ = False"

fun num_of :: "pyval \<Rightarrow> pyfloat option" where
  "num_of (PyBool b) = Some (PyFinite (if b then 1 else 0))"
| "num_of (PyInt i) = Some (PyFinite (of_int i))"
| "num_of (PyFloat f) = Some f"
| "num_of _ = None"

text \<open>
  Python's \<^verbatim>\<open>==\<close> on scalars: numbers (bool, int, float) compare by value across their
  types, strings with strings, \<^verbatim>\<open>None\<close> with \<^verbatim>\<open>None\<close>; anything else is unequal. On these
  types \<^verbatim>\<open>!=\<close> is the negation of \<^verbatim>\<open>==\<close>.
\<close>

fun py_eq :: "pyval \<Rightarrow> pyval \<Rightarrow> bool" where
  "py_eq PyNone PyNone = True"
| "py_eq (PyStr s) (PyStr t) = (s = t)"
| "py_eq v w = (case (num_of v, num_of w) of
                  (Some x, Some y) \<Rightarrow> float_eq x y
                | _ \<Rightarrow> False)"

definition py_ne :: "pyval \<Rightarrow> pyval \<Rightarrow> bool" where
  "py_ne v w = (\<not> py_eq v w)"

text \<open>
  A \<^verbatim>\<open>str\<close> is held as the bytes of its UTF-8 encoding, so an ASCII character is one
  \<open>char\<close> and any other character is two to four. \<^verbatim>\<open>str.rstrip()\<close> removes the trailing
  whitespace (\<^verbatim>\<open>' \t\n\r\x0b\x0c'\<close>; the code applies it to strings that end in a double quote
  and one space), and \<^verbatim>\<open>str(n)\<close> writes a non-negative integer in decimal.
\<close>

definition isspace :: "char \<Rightarrow> bool" where
  "isspace c = (c \<in> set [CHR 0x20, CHR 0x09, CHR 0x0A, CHR 0x0D, CHR 0x0B, CHR 0x0C])"

definition rstrip :: "string \<Rightarrow> string" where
  "rstrip s = rev (dropWhile isspace (rev s))"

text \<open>
  \<^verbatim>\<open>str.upper()\<close> replaces every character by its uppercase mapping in the Unicode
  character database of the interpreter: a letter a-z by A-Z, any other ASCII character by
  itself, and a character beyond ASCII by the one to three characters the database gives
  (\<^verbatim>\<open>'stra\xdfe'.upper()\<close> is \<^verbatim>\<open>'STRASSE'\<close>). The database is not part of the program:
  it is the parameter \<open>ucd\<close>, from the encoding of one character beyond ASCII to the
  encoding of its mapping. \<open>utf8_length\<close> reads the number of bytes of a character off its
  first byte.
\<close>

definition upper_char :: "char \<Rightarrow> char" where
  "upper_char c =
     (case map_of (zip ''abcdefghijklmnopqrstuvwxyz'' ''ABCDEFGHIJKLMNOPQRSTUVWXYZ'') c of
        Some u \<Rightarrow> u
      | None \<Rightarrow> c)"

definition is_ascii :: "char \<Rightarrow> bool" where
  "is_ascii c = ((of_char c :: nat) < 128)"

definition utf8_length :: "char \<Rightarrow> nat" where
  "utf8_length c =
     (let b = (of_char c :: nat)
      in if b < 128 then 1 else if b < 224 then 2 else if b < 240 then 3 else 4)"

function upper :: "(string \<Rightarrow> string) \<Rightarrow> string \<Rightarrow> string" where
  "upper ucd [] = []"
| "upper ucd (c # cs) =
     (if is_ascii c then upper_char c # upper ucd cs
      else ucd (c # take (utf8_length c - 1) cs) @ upper ucd (drop (utf8_length c - 1) cs))"
  by pat_completeness auto
termination
  by (relation "measure (\<lambda>(ucd, s). length s)") auto

definition digit :: "nat \<Rightarrow> char" where
  "digit d = ''0123456789'' ! d"

function str :: "nat \<Rightarrow> string" where
  "str n = (if n < 10 then [digit n] else str (n div 10) @ [digit (n mod 10)])"
  by pat_completeness auto
termination
  by (relation "measure id") auto

declare str.simps [simp del]

section \<open>The null normalizer\<close>

text \<open>
  \<^verbatim>\<open>
  def __castToNone__(value):
      if value != value:
          return None
      else:
          return value
  \<close>
\<close>

definition castToNone :: "pyval \<Rightarrow> pyval" where
  "castToNone v = (if py_ne v v then PyNone else v)"

section \<open>The column-list formatter\<close>

text \<open>
  \<^verbatim>\<open>
  def __buildInsertStrObj__(colNames, ToUpper=False):
      _open = '('; _close = ')'; _sep = ','
      _colNameStr = ''; _colNumstr = ''
      if ToUpper:
          colNames = map(lambda x: x.upper(), colNames)
      for i, c in enumerate(colNames):
          if i == 0:
              _colNameStr += _open
              _colNameStr += """"%s" """ % c
              _colNameStr = _colNameStr.rstrip()
              _colNumstr += _open
              _colNumstr += ':' + str(i + 1)
          else:
              _colNameStr += _sep
              _colNameStr += """"%s" """ % c
              _colNameStr = _colNameStr.rstrip()
              _colNumstr += _sep
              _colNumstr += ':' + str(i + 1)
      _colNameStr += _close
      _colNumstr += _close
      return _colNameStr, _colNumstr
  \<close>
  The format \<^verbatim>\<open>""""%s" """\<close> is the triple-quoted string holding a double quote, \<^verbatim>\<open>%s\<close>,
  a double quote and a space. The loop body is \<open>build_step\<close>, on the pair of the two
  strings built so far.
\<close>

definition fmt_name :: "string \<Rightarrow> string" where
  \<open>fmt_name c = ''"'' @ c @ ''" ''\<close>

fun build_step :: "nat \<times> string \<Rightarrow> string \<times> string \<Rightarrow> string \<times> string" where
  "build_step (i, c) (colNameStr, colNumstr) =
     (if i = 0
      then (rstrip ((colNameStr @ ''('') @ fmt_name c),
            (colNumstr @ ''('') @ ('':'' @ str (i + 1)))
      else (rstrip ((colNameStr @ '','') @ fmt_name c),
            (colNumstr @ '','') @ ('':'' @ str (i + 1))))"

definition buildInsertStrObj ::
  "(string \<Rightarrow> string) \<Rightarrow> string list \<Rightarrow> bool \<Rightarrow> string \<times> string" where
  "buildInsertStrObj ucd colNames ToUpper =
     (let colNames' = (if ToUpper then map (upper ucd) colNames else colNames);
          (colNameStr, colNumstr) = fold build_step (List.enumerate 0 colNames') ('''', '''')
      in (colNameStr @ '')'', colNumstr @ '')''))"

section \<open>The statement builder\<close>

text \<open>
  \<^verbatim>\<open>
  def __buildInsCursorString__(tableName, colNumStr, colNameStr):
      return "INSERT INTO %s %s VALUES %s" % (tableName, colNameStr, colNumStr)
  \<close>
\<close>

definition buildInsCursorString :: "string \<Rightarrow> string \<Rightarrow> string \<Rightarrow> string" where
  "buildInsCursorString tableName colNumStr colNameStr =
     ''INSERT INTO '' @ tableName @ '' '' @ colNameStr @ '' VALUES '' @ colNumStr"

section \<open>The data frame and the row extractor\<close>

text \<open>
  A data frame has named columns, each of one dtype, and rows of cells. The code reads
  \<^verbatim>\<open>dataFrame.columns.values\<close> (the names), \<^verbatim>\<open>dataFrame.shape[1]\<close> (the number of columns)
  and \<^verbatim>\<open>dataFrame.iterrows()\<close> (the rows in order, each with its index).
\<close>

datatype dtype = Int64 | Float64 | Bool | Object

record dataFrame =
  columns :: "string list"
  dtypes :: "dtype list"
  data :: "pyval list list"

definition shape :: "dataFrame \<Rightarrow> nat \<times> nat" where
  "shape df = (length (data df), length (columns df))"

text \<open>
  \<^verbatim>\<open>iterrows\<close> does not hand out the cells as the columns hold them: it walks
  \<^verbatim>\<open>dataFrame.values\<close>, the frame as one array of the dtype common to all columns, and
  makes a Series of each row. The common dtype is the columns' dtype when they all agree,
  \<^verbatim>\<open>object\<close> when a column is \<^verbatim>\<open>object\<close> or when \<^verbatim>\<open>bool\<close> meets a number, and \<^verbatim>\<open>float64\<close>
  when \<^verbatim>\<open>int64\<close> meets \<^verbatim>\<open>float64\<close>. In an \<^verbatim>\<open>object\<close> array the cells stay as they are; in
  a \<^verbatim>\<open>float64\<close> array an integer becomes the nearest double, ties to even
  (\<open>round_to_double\<close>, exact below \<open>2 ^ 53\<close>; an \<^verbatim>\<open>int64\<close> is never out of the range
  of a double).
\<close>

definition find_common_type :: "dtype list \<Rightarrow> dtype" where
  "find_common_type ts =
     (if ts = [] then Float64
      else if Object \<in> set ts then Object
      else if Bool \<in> set ts then (if list_all (\<lambda>t. t = Bool) ts then Bool else Object)
      else if Float64 \<in> set ts then Float64
      else Int64)"

function bit_length :: "nat \<Rightarrow> nat" where
  "bit_length n = (if n = 0 then 0 else Suc (bit_length (n div 2)))"
  by pat_completeness auto
termination
  by (relation "measure id") auto

declare bit_length.simps [simp del]

definition round_to_double :: "int \<Rightarrow> int" where
  "round_to_double i =
     (let a = nat \<bar>i\<bar>; e = bit_length a - 53
      in if e = 0 then i
         else (let q = a div 2 ^ e; r = a mod 2 ^ e; h = 2 ^ (e - 1);
                   q' = (if h < r \<or> (r = h \<and> q mod 2 = 1) then q + 1 else q)
               in sgn i * int (q' * 2 ^ e)))"

fun astype :: "dtype \<Rightarrow> pyval \<Rightarrow> pyval" where
  "astype Float64 (PyInt i) = PyFloat (PyFinite (of_int (round_to_double i)))"
| "astype _ v = v"

definition frame_values :: "dataFrame \<Rightarrow> pyval list list" where
  "frame_values df = map (map (astype (find_common_type (dtypes df)))) (data df)"

definition iterrows :: "dataFrame \<Rightarrow> (nat \<times> pyval list) list" where
  "iterrows df = List.enumerate 0 (frame_values df)"

text \<open>
  \<^verbatim>\<open>
  def __pandasToList__(dataFrame):
      content = []
      for i, r in dataFrame.iterrows():
          row = r.values.tolist()
          content.append(row)
      return content
  \<close>
  \<^verbatim>\<open>r.values.tolist()\<close> is the list of the cells of the row Series.
\<close>

definition pandasToList :: "dataFrame \<Rightarrow> pyval list list" where
  "pandasToList df = fold (\<lambda>(i, r) content. content @ [r]) (iterrows df) []"

text \<open>
  The normalizing pass of the upload writes into the list of rows while it walks it:
  \<^verbatim>\<open>
  for i, r in enumerate(_dtList):
      for j, c in enumerate(r):
          _dtList[i][j] = self.__castToNone__(c)
  \<close>
  Here \<^verbatim>\<open>r\<close> is the list object \<^verbatim>\<open>_dtList[i]\<close>, so \<^verbatim>\<open>c\<close> is the cell \<^verbatim>\<open>_dtList[i][j]\<close> as it is
  when the inner loop reaches \<^verbatim>\<open>j\<close>; no length changes.
\<close>

definition cast_cell :: "nat \<Rightarrow> nat \<Rightarrow> pyval list list \<Rightarrow> pyval list list" where
  "cast_cell i j dtList = dtList[i := (dtList ! i)[j := castToNone (dtList ! i ! j)]]"

definition cast_row :: "nat \<Rightarrow> pyval list list \<Rightarrow> pyval list list" where
  "cast_row i dtList = fold (cast_cell i) [0..<length (dtList ! i)] dtList"

definition cast_cells :: "pyval list list \<Rightarrow> pyval list list" where
  "cast_cells dtList = fold cast_row [0..<length dtList] dtList"

section \<open>The driver and the upload\<close>

text \<open>
  The upload talks to the database driver: \<^verbatim>\<open>cx_Oracle.connect\<close>, \<^verbatim>\<open>db.cursor()\<close>,
  \<^verbatim>\<open>cursor.prepare\<close>, \<^verbatim>\<open>cursor.executemany\<close>, \<^verbatim>\<open>db.commit()\<close>, \<^verbatim>\<open>cursor.close()\<close> and
  \<^verbatim>\<open>db.close()\<close>. Each call is recorded as an event in a log, in the order of the calls.
  Each call returns or raises; a driver says, for each call, whether it raises and with
  which message. The upload has no \<^verbatim>\<open>try\<close>: an exception ends it at the call that raised.
\<close>

datatype event =
    Connect string
  | Cursor
  | Prepare string
  | ExecuteMany "string option" "pyval list list"
  | Commit
  | CursorClose
  | ConnectionClose

datatype error = AssertionError | DatabaseError string

record driver =
  connect_raises :: "string \<Rightarrow> string option"
  cursor_raises :: "string option"
  prepare_raises :: "string \<Rightarrow> string option"
  executemany_raises :: "pyval list list \<Rightarrow> string option"
  commit_raises :: "string option"
  cursor_close_raises :: "string option"
  connection_close_raises :: "string option"

type_synonym io = "event list \<Rightarrow> event list \<times> (error + unit)"

definition call :: "event \<Rightarrow> string option \<Rightarrow> io" where
  "call ev raises evs =
     (evs @ [ev], case raises of None \<Rightarrow> Inr () | Some msg \<Rightarrow> Inl (DatabaseError msg))"

definition seq :: "io \<Rightarrow> io \<Rightarrow> io" where
  "seq m k evs = (case m evs of (evs', Inl e) \<Rightarrow> (evs', Inl e) | (evs', Inr u) \<Rightarrow> k evs')"

record OracleCommand =
  cStr :: string
  command :: "string option"

text \<open>
  \<^verbatim>\<open>
  def __connect__(self):
      self.__db = cx_Oracle.connect(self.__cStr)
      self.__cursor = self.__db.cursor()

  def __disconnect__(self):
      self.__cursor.close()
      self.__db.close()
  \<close>
\<close>

definition connect :: "OracleCommand \<Rightarrow> driver \<Rightarrow> io" where
  "connect self d =
     seq (call (Connect (cStr self)) (connect_raises d (cStr self)))
         (call Cursor (cursor_raises d))"

definition disconnect :: "driver \<Rightarrow> io" where
  "disconnect d =
     seq (call CursorClose (cursor_close_raises d))
         (call ConnectionClose (connection_close_raises d))"

text \<open>
  \<^verbatim>\<open>
  def pandasBulkInsert(self, dataFrame, tableName, columnNames=None, colNamesUpper=False):
      if columnNames is None:
          columnNames = list(dataFrame.columns.values)
      else:
          assert (len(columnNames) == dataFrame.shape[1])
      _dtList = self.__pandasToList__(dataFrame)
      for i, r in enumerate(_dtList):
          for j, c in enumerate(r):
              _dtList[i][j] = self.__castToNone__(c)
      _colNameStr, _colNumStr = self.__buildInsertStrObj__(columnNames, colNamesUpper)
      _curString = self.__buildInsCursorString__(tableName, _colNumStr, _colNameStr)
      self.__connect__()
      self.__cursor.prepare(_curString)
      self.__cursor.executemany(None, _dtList)
      self.__db.commit()
      self.__disconnect__()
  \<close>
  \<open>column_names\<close> is the first statement: the names to insert, or the failed assertion
  (the \<^verbatim>\<open>assert\<close> statement is executed, as the interpreter does unless optimization is
  switched on).
\<close>

definition column_names :: "dataFrame \<Rightarrow> string list option \<Rightarrow> error + string list" where
  "column_names dataFrame columnNames =
     (case columnNames of
        None \<Rightarrow> Inr (columns dataFrame)
      | Some cs \<Rightarrow> if length cs = snd (shape dataFrame) then Inr cs else Inl AssertionError)"

definition curString :: "(string \<Rightarrow> string) \<Rightarrow> string \<Rightarrow> string list \<Rightarrow> bool \<Rightarrow> string" where
  "curString ucd tableName columnNames colNamesUpper =
     (let (colNameStr, colNumStr) = buildInsertStrObj ucd columnNames colNamesUpper
      in buildInsCursorString tableName colNumStr colNameStr)"

definition pandasBulkInsert ::
  "(string \<Rightarrow> string) \<Rightarrow> OracleCommand \<Rightarrow> driver \<Rightarrow> dataFrame \<Rightarrow> string \<Rightarrow>
     string list option \<Rightarrow> bool \<Rightarrow> io" where
  "pandasBulkInsert ucd self d dataFrame tableName columnNames colNamesUpper evs =
     (case column_names dataFrame columnNames of
        Inl e \<Rightarrow> (evs, Inl e)
      | Inr columnNames' \<Rightarrow>
          (let dtList = cast_cells (pandasToList dataFrame);
               cur = curString ucd tableName columnNames' colNamesUpper
           in seq (connect self d)
             (seq (call (Prepare cur) (prepare_raises d cur))
             (seq (call (ExecuteMany None dtList) (executemany_raises d dtList))
             (seq (call Commit (commit_raises d))
                  (disconnect d)))) evs))"

text \<open>What a log holds: the statements prepared, the batches submitted.\<close>

fun prepared :: "event list \<Rightarrow> string list" where
  "prepared [] = []"
| "prepared (Prepare s # evs) = s # prepared evs"
| "prepared (_ # evs) = prepared evs"

fun submitted :: "event list \<Rightarrow> pyval list list list" where
  "submitted [] = []"
| "submitted (ExecuteMany _ rows # evs) = rows # submitted evs"
| "submitted (_ # evs) = submitted evs"

section \<open>The fragments the specification names\<close>

text \<open>
  The specification describes the two fragments of the column-list formatter as a
  parenthesized, comma-separated list of double-quoted names and a parenthesized,
  comma-separated list of the placeholders \<^verbatim>\<open>:1\<close> to \<^verbatim>\<open>:n\<close>, the normalized cell as null
  for the NaN value and the cell itself otherwise, and the upper-cased form of a name; on
  ASCII that is each letter a-z moved to its capital, 32 code points below.
\<close>

fun join :: "string \<Rightarrow> string list \<Rightarrow> string" where
  "join sep [] = []"
| "join sep [x] = x"
| "join sep (x # y # ys) = x @ sep @ join sep (y # ys)"

definition quoted :: "string \<Rightarrow> string" where
  \<open>quoted c = ''"'' @ c @ ''"''\<close>

definition quoted_list :: "string list \<Rightarrow> string" where
  "quoted_list cs = ''('' @ join '','' (map quoted cs) @ '')''"

definition placeholder :: "nat \<Rightarrow> string" where
  "placeholder k = '':'' @ str k"

definition placeholder_list :: "nat \<Rightarrow> string" where
  "placeholder_list n = ''('' @ join '','' (map placeholder [1..<Suc n]) @ '')''"

definition nan_to_null :: "pyval \<Rightarrow> pyval" where
  "nan_to_null v = (if v = PyFloat PyNaN then PyNone else v)"

definition ascii_capital :: "char \<Rightarrow> char" where
  "ascii_capital c =
     (if 97 \<le> (of_char c :: nat) \<and> (of_char c :: nat) \<le> 122
      then char_of ((of_char c :: nat) - 32) else c)"

fun is_int :: "pyval \<Rightarrow> bool" where
  "is_int (PyInt i) = True"
| "is_int _ = False"

section \<open>Example inputs\<close>

text \<open>
  The data set of the specification's example (an \<^verbatim>\<open>int64\<close> column beside an \<^verbatim>\<open>object\<close>
  column), a frame with an \<^verbatim>\<open>int64\<close> column beside a \<^verbatim>\<open>float64\<close> column, an
  \<^verbatim>\<open>OracleCommand\<close>, a driver whose calls all return, one whose \<^verbatim>\<open>executemany\<close> raises, and
  an uppercase table that knows the sharp s (bytes C3 9F).
\<close>

definition example_frame :: dataFrame where
  "example_frame =
     \<lparr>columns = [''id'', ''name''],
      dtypes = [Int64, Object],
      data = [[PyInt 1, PyStr ''x''], [PyInt 2, PyFloat PyNaN]]\<rparr>"

definition mixed_frame :: dataFrame where
  "mixed_frame =
     \<lparr>columns = [''n'', ''x''],
      dtypes = [Int64, Float64],
      data = [[PyInt 9007199254740993, PyFloat (PyFinite (1 / 2))]]\<rparr>"

definition example_ucd :: "string \<Rightarrow> string" where
  "example_ucd s = (if s = [CHR 0xC3, CHR 0x9F] then ''SS'' else s)"

definition example_command :: OracleCommand where
  "example_command = \<lparr>cStr = ''scott/tiger@orcl'', command = None\<rparr>"

definition ok_driver :: driver where
  "ok_driver =
     \<lparr>connect_raises = (\<lambda>_. None), cursor_raises = None, prepare_raises = (\<lambda>_. None),
      executemany_raises = (\<lambda>_. None), commit_raises = None, cursor_close_raises = None,
      connection_close_raises = None\<rparr>"

definition failing_driver :: driver where
  "failing_driver =
     ok_driver\<lparr>executemany_raises := (\<lambda>_. Some ''ORA-00001: unique constraint violated'')\<rparr>"

section \<open>Helper lemmas: strings\<close>

lemma join_Cons: "join sep (x # xs) = x @ concat (map (\<lambda>y. sep @ y) xs)"
  by (induction xs arbitrary: x) auto

lemma rstrip_fmt_name: "rstrip (s @ fmt_name c) = s @ quoted c"
  by (simp add: rstrip_def fmt_name_def quoted_def isspace_def)

lemma str_digits:
  "str 1 = ''1''" "str 2 = ''2''" "str (Suc 0) = ''1''" "str (Suc (Suc 0)) = ''2''"
  by (simp_all add: str.simps digit_def)

lemma fold_build_step_tail:
  "0 < i \<Longrightarrow> fold build_step (List.enumerate i cs) (a, b) =
     (a @ concat (map (\<lambda>c. '','' @ quoted c) cs),
      b @ concat (map (\<lambda>k. '','' @ placeholder (Suc k)) [i..<i + length cs]))"
proof (induction cs arbitrary: i a b)
  case Nil
  then show ?case by simp
next
  case (Cons c cs)
  have step: "build_step (i, c) (a, b) = (a @ '','' @ quoted c, b @ '','' @ placeholder (Suc i))"
    using Cons.prems rstrip_fmt_name [of "a @ '',''" c] by (simp add: placeholder_def)
  have "fold build_step (List.enumerate i (c # cs)) (a, b) =
        fold build_step (List.enumerate (Suc i) cs) (build_step (i, c) (a, b))"
    by simp
  also have "\<dots> = fold build_step (List.enumerate (Suc i) cs)
                     (a @ '','' @ quoted c, b @ '','' @ placeholder (Suc i))"
    by (simp only: step)
  also have "\<dots> = ((a @ '','' @ quoted c) @ concat (map (\<lambda>c. '','' @ quoted c) cs),
       (b @ '','' @ placeholder (Suc i)) @
          concat (map (\<lambda>k. '','' @ placeholder (Suc k)) [Suc i..<Suc i + length cs]))"
    by (rule Cons.IH) simp
  finally show ?case
    by (simp add: upt_conv_Cons del: upt_Suc)
qed

lemma fold_build_step_Cons:
  "fold build_step (List.enumerate 0 (c # cs)) ('''', '''') =
     (''('' @ quoted c @ concat (map (\<lambda>c. '','' @ quoted c) cs),
      ''('' @ placeholder 1 @
          concat (map (\<lambda>k. '','' @ placeholder (Suc k)) [Suc 0..<Suc (length cs)]))"
proof -
  have first: "build_step (0, c) ('''', '''') = (''('' @ quoted c, ''('' @ placeholder 1)"
    using rstrip_fmt_name [of "''(''" c] by (simp add: placeholder_def)
  have "fold build_step (List.enumerate 0 (c # cs)) ('''', '''') =
        fold build_step (List.enumerate (Suc 0) cs) (''('' @ quoted c, ''('' @ placeholder 1)"
    using first by simp
  also have "\<dots> = ((''('' @ quoted c) @ concat (map (\<lambda>c. '','' @ quoted c) cs),
       (''('' @ placeholder 1) @
          concat (map (\<lambda>k. '','' @ placeholder (Suc k)) [Suc 0..<Suc 0 + length cs]))"
    by (rule fold_build_step_tail) simp
  finally show ?thesis by simp
qed

lemma fold_build_step_fragments:
  assumes "cs \<noteq> []"
  shows "fold build_step (List.enumerate 0 cs) ('''', '''') =
           (butlast (quoted_list cs), butlast (placeholder_list (length cs)))"
proof -
  obtain c cs' where cs: "cs = c # cs'"
    using assms by (cases cs) auto
  have q: "quoted_list (c # cs') =
             (''('' @ quoted c @ concat (map (\<lambda>c. '','' @ quoted c) cs')) @ '')''"
    by (simp add: quoted_list_def join_Cons comp_def)
  have "[1..<Suc (length (c # cs'))] = 1 # map Suc [Suc 0..<Suc (length cs')]"
    by (simp add: upt_conv_Cons map_Suc_upt del: upt_Suc)
  then have p: "placeholder_list (length (c # cs')) =
     (''('' @ placeholder 1 @
        concat (map (\<lambda>k. '','' @ placeholder (Suc k)) [Suc 0..<Suc (length cs')])) @ '')''"
    by (simp add: placeholder_list_def join_Cons comp_def del: upt_Suc)
  show ?thesis
    unfolding cs fold_build_step_Cons q p butlast_snoc ..
qed

lemma buildInsertStrObj_fragments:
  assumes "cs \<noteq> []"
  shows "buildInsertStrObj ucd cs False = (quoted_list cs, placeholder_list (length cs))"
proof -
  have "quoted_list cs \<noteq> []" "placeholder_list (length cs) \<noteq> []"
    by (simp_all add: quoted_list_def placeholder_list_def)
  then show ?thesis
    using fold_build_step_fragments [OF assms]
    by (simp add: buildInsertStrObj_def quoted_list_def placeholder_list_def butlast_append)
qed

lemma buildInsertStrObj_upper:
  "buildInsertStrObj ucd cs True = buildInsertStrObj ucd (map (upper ucd) cs) False"
  by (simp add: buildInsertStrObj_def)

lemma curString_fragments:
  assumes "cs \<noteq> []"
  shows "curString ucd tableName cs up =
           ''INSERT INTO '' @ tableName @ '' '' @
           quoted_list (if up then map (upper ucd) cs else cs) @ '' VALUES '' @
           placeholder_list (length cs)"
proof (cases up)
  case True
  have "map (upper ucd) cs \<noteq> []" using assms by simp
  from buildInsertStrObj_fragments [OF this, of ucd] True show ?thesis
    by (simp add: curString_def buildInsertStrObj_upper buildInsCursorString_def)
next
  case False
  with buildInsertStrObj_fragments [OF assms, of ucd] show ?thesis
    by (simp add: curString_def buildInsCursorString_def)
qed

lemma curString_empty: "curString ucd tableName [] up = ''INSERT INTO '' @ tableName @ '' ) VALUES )''"
  by (simp add: curString_def buildInsertStrObj_def buildInsCursorString_def)

lemma lower_letters: "map char_of [97..<123 :: nat] = ''abcdefghijklmnopqrstuvwxyz''"
  by code_simp

lemma capital_letters:
  "map (\<lambda>c. char_of ((of_char c :: nat) - 32)) ''abcdefghijklmnopqrstuvwxyz'' =
     ''ABCDEFGHIJKLMNOPQRSTUVWXYZ''"
  by code_simp

lemma lower_letter_iff:
  "c \<in> set ''abcdefghijklmnopqrstuvwxyz'' \<longleftrightarrow>
     97 \<le> (of_char c :: nat) \<and> (of_char c :: nat) \<le> 122"
proof
  assume "c \<in> set ''abcdefghijklmnopqrstuvwxyz''"
  then have "c \<in> set (map char_of [97..<123 :: nat])"
    by (simp only: lower_letters)
  then have "c \<in> char_of ` {97..<123 :: nat}"
    by (simp only: set_map set_upt)
  then obtain n :: nat where n: "97 \<le> n" "n < 123" "c = char_of n" by auto
  then have "(of_char c :: nat) = n" by simp
  with n show "97 \<le> (of_char c :: nat) \<and> (of_char c :: nat) \<le> 122" by simp
next
  assume "97 \<le> (of_char c :: nat) \<and> (of_char c :: nat) \<le> 122"
  then have "(of_char c :: nat) \<in> {97..<123}" by auto
  then have "char_of (of_char c :: nat) \<in> char_of ` {97..<123 :: nat}" by (rule imageI)
  then have "char_of (of_char c :: nat) \<in> set (map char_of [97..<123 :: nat])"
    by (simp only: set_map set_upt)
  then show "c \<in> set ''abcdefghijklmnopqrstuvwxyz''"
    by (simp only: lower_letters char_of_char)
qed

lemma upper_char_capital: "upper_char c = ascii_capital c"
proof -
  have "map_of (zip ''abcdefghijklmnopqrstuvwxyz'' ''ABCDEFGHIJKLMNOPQRSTUVWXYZ'') c =
        (if c \<in> set ''abcdefghijklmnopqrstuvwxyz''
         then Some (char_of ((of_char c :: nat) - 32)) else None)"
    unfolding capital_letters [symmetric] map_of_zip_map ..
  then show ?thesis
    unfolding upper_char_def ascii_capital_def lower_letter_iff by simp
qed

lemma upper_ascii: "list_all is_ascii n \<Longrightarrow> upper ucd n = map ascii_capital n"
  by (induction n) (simp_all add: upper_char_capital)

lemma upper_ascii_append:
  "list_all is_ascii a \<Longrightarrow> upper ucd (a @ s) = map ascii_capital a @ upper ucd s"
  by (induction a) (simp_all add: upper_char_capital)

lemma upper_example:
  "upper example_ucd (''stra'' @ [CHR 0xC3, CHR 0x9F] @ ''e'') = ''STRASSE''"
  "upper example_ucd ''id'' = ''ID''"
  by (simp_all add: is_ascii_def upper_char_def utf8_length_def example_ucd_def)

section \<open>Helper lemmas: cells and rows\<close>

lemma py_ne_self: "py_ne v v = (v = PyFloat PyNaN)"
proof (cases v)
  case (PyFloat f)
  then show ?thesis by (cases f) (simp_all add: py_ne_def)
qed (simp_all add: py_ne_def)

lemma castToNone_nan_to_null: "castToNone v = nan_to_null v"
  by (simp add: castToNone_def nan_to_null_def py_ne_self)

lemma fold_cast_cell:
  "i < length dt \<Longrightarrow> n \<le> length (dt ! i) \<Longrightarrow>
   fold (cast_cell i) [0..<n] dt =
     dt[i := map castToNone (take n (dt ! i)) @ drop n (dt ! i)]"
proof (induction n)
  case 0
  then show ?case by simp
next
  case (Suc n)
  let ?r = "dt ! i"
  have n: "n < length ?r" using Suc.prems by simp
  have "fold (cast_cell i) [0..<Suc n] dt =
        cast_cell i n (dt[i := map castToNone (take n ?r) @ drop n ?r])"
    using Suc by simp
  also have "\<dots> = dt[i := (map castToNone (take n ?r) @ drop n ?r)[n := castToNone (?r ! n)]]"
    using Suc.prems n by (simp add: cast_cell_def nth_append)
  also have "(map castToNone (take n ?r) @ drop n ?r)[n := castToNone (?r ! n)] =
             map castToNone (take (Suc n) ?r) @ drop (Suc n) ?r"
    using n by (simp add: list_update_append take_Suc_conv_app_nth Cons_nth_drop_Suc [symmetric])
  finally show ?case .
qed

lemma cast_row_eq: "i < length dt \<Longrightarrow> cast_row i dt = dt[i := map castToNone (dt ! i)]"
  by (simp add: cast_row_def fold_cast_cell)

lemma fold_cast_row:
  "m \<le> length dt \<Longrightarrow>
   fold cast_row [0..<m] dt = map (map castToNone) (take m dt) @ drop m dt"
proof (induction m)
  case 0
  then show ?case by simp
next
  case (Suc m)
  have m: "m < length dt" using Suc.prems by simp
  let ?dt = "map (map castToNone) (take m dt) @ drop m dt"
  have "fold cast_row [0..<Suc m] dt = cast_row m ?dt"
    using Suc by simp
  also have "\<dots> = ?dt[m := map castToNone (?dt ! m)]"
    using m by (simp add: cast_row_eq)
  also have "\<dots> = map (map castToNone) (take (Suc m) dt) @ drop (Suc m) dt"
    using m by (simp add: nth_append list_update_append take_Suc_conv_app_nth Cons_nth_drop_Suc [symmetric])
  finally show ?case .
qed

lemma cast_cells_eq: "cast_cells dt = map (map nan_to_null) dt"
proof -
  have "castToNone = nan_to_null"
    by (rule ext) (rule castToNone_nan_to_null)
  then show ?thesis
    by (simp add: cast_cells_def fold_cast_row)
qed

lemma fold_append_rows:
  "fold (\<lambda>(i, r) content. content @ [r]) (List.enumerate n rows) acc = acc @ rows"
  by (induction rows arbitrary: n acc) simp_all

lemma pandasToList_eq: "pandasToList df = frame_values df"
  by (simp add: pandasToList_def iterrows_def fold_append_rows)

lemma astype_unchanged: "t \<noteq> Float64 \<or> \<not> is_int v \<Longrightarrow> astype t v = v"
  by (cases t; cases v) simp_all

lemma frame_values_unchanged:
  assumes "find_common_type (dtypes df) \<noteq> Float64 \<or> list_all (list_all (\<lambda>v. \<not> is_int v)) (data df)"
  shows "frame_values df = data df"
proof -
  have "map (astype (find_common_type (dtypes df))) r = r" if "r \<in> set (data df)" for r
  proof (rule map_idI)
    fix v assume "v \<in> set r"
    with assms that have "find_common_type (dtypes df) \<noteq> Float64 \<or> \<not> is_int v"
      by (auto simp: list_all_iff)
    then show "astype (find_common_type (dtypes df)) v = v"
      by (rule astype_unchanged)
  qed
  then show ?thesis
    by (simp add: frame_values_def map_idI)
qed

lemma bit_length_example: "bit_length 9007199254740993 = 54"
  by (simp add: bit_length.simps)

lemma round_to_double_example: "round_to_double 9007199254740993 = 9007199254740992"
  by (simp add: round_to_double_def bit_length_example Let_def)

lemma frame_values_examples:
  "frame_values example_frame = [[PyInt 1, PyStr ''x''], [PyInt 2, PyFloat PyNaN]]"
  "frame_values mixed_frame =
     [[PyFloat (PyFinite 9007199254740992), PyFloat (PyFinite (1 / 2))]]"
  by (simp_all add: frame_values_def find_common_type_def example_frame_def mixed_frame_def
      round_to_double_example)

section \<open>Helper lemmas: the upload\<close>

lemma pandasBulkInsert_rejected:
  "column_names df cn = Inl e \<Longrightarrow> pandasBulkInsert ucd self d df t cn up evs = (evs, Inl e)"
  by (simp add: pandasBulkInsert_def)

lemma pandasBulkInsert_accepted:
  "column_names df cn = Inr cs \<Longrightarrow>
   pandasBulkInsert ucd self d df t cn up evs =
     seq (connect self d)
       (seq (call (Prepare (curString ucd t cs up)) (prepare_raises d (curString ucd t cs up)))
       (seq (call (ExecuteMany None (map (map nan_to_null) (frame_values df)))
               (executemany_raises d (map (map nan_to_null) (frame_values df))))
       (seq (call Commit (commit_raises d))
            (disconnect d)))) evs"
  by (simp add: pandasBulkInsert_def cast_cells_eq pandasToList_eq Let_def)

lemma column_names_cases:
  "column_names df cn = Inl AssertionError \<or>
   column_names df cn = Inr (case cn of None \<Rightarrow> columns df | Some cs \<Rightarrow> cs)"
  by (simp add: column_names_def split: option.splits)

lemma column_names_example:
  "column_names example_frame (Some [''id'', ''name'']) = Inr [''id'', ''name'']"
  "column_names example_frame None = Inr [''id'', ''name'']"
  "column_names mixed_frame None = Inr [''n'', ''x'']"
  by (simp_all add: column_names_def shape_def example_frame_def mixed_frame_def)

lemma curString_example:
  \<open>curString ucd ''T'' [''id'', ''name''] False = ''INSERT INTO T ("id","name") VALUES (:1,:2)''\<close>
  by (simp add: curString_fragments quoted_list_def quoted_def placeholder_list_def
      placeholder_def str_digits)

lemmas io_defs = seq_def call_def connect_def disconnect_def

section \<open>The claims\<close>

text \<open>
  C1. For a call of the bulk upload with table name T and a non-empty list of column names
  that passes the length check, once the connection and the cursor are open the one
  statement prepared on the cursor is \<^verbatim>\<open>INSERT INTO T ("c1",...,"cn") VALUES (:1,...,:n)\<close>:
  the column names double-quoted (upper-cased first when the flag is set), the table name
  inserted as it was given, without quotes.
\<close>

theorem upload_prepares_insert_statement:
  assumes "columnNames = Some cs" and "length cs = length (columns df)" and "cs \<noteq> []"
    and "connect_raises d (cStr self) = None" and "cursor_raises d = None"
  shows "prepared (fst (pandasBulkInsert ucd self d df tableName columnNames up [])) =
           [''INSERT INTO '' @ tableName @ '' '' @
            quoted_list (if up then map (upper ucd) cs else cs) @ '' VALUES '' @
            placeholder_list (length cs)]"
proof -
  have "column_names df columnNames = Inr cs"
    using assms(1,2) by (simp add: column_names_def shape_def)
  then show ?thesis
    using assms(4,5) curString_fragments [OF assms(3), of ucd tableName up]
    by (simp add: pandasBulkInsert_accepted io_defs split: option.splits)
qed

theorem upload_prepares_insert_statement_witness:
  \<open>prepared (fst (pandasBulkInsert example_ucd example_command ok_driver example_frame ''T''
       (Some [''id'', ''name'']) False [])) =
     [''INSERT INTO T ("id","name") VALUES (:1,:2)'']\<close>
  using upload_prepares_insert_statement [of "Some [''id'', ''name'']" "[''id'', ''name'']"
      example_frame ok_driver example_command example_ucd "''T''" False]
  by (simp add: example_frame_def ok_driver_def quoted_list_def quoted_def
      placeholder_list_def placeholder_def str_digits)

theorem upload_table_name_quoted_counterexample:
  \<open>prepared (fst (pandasBulkInsert example_ucd example_command ok_driver example_frame ''T''
       (Some [''id'', ''name'']) False [])) \<noteq>
     [''INSERT INTO "T" ("id","name") VALUES (:1,:2)'']\<close>
  by (simp add: pandasBulkInsert_accepted [OF column_names_example(1)] curString_example
      io_defs ok_driver_def)

text \<open>
  C2. On every call of the bulk upload, whatever batch is submitted to \<^verbatim>\<open>executemany\<close> is
  the rows of the data frame in row order, each row's cells in column order, none left
  out, each cell being the normalized value (NaN to null, anything else unchanged) of the
  cell as \<^verbatim>\<open>iterrows\<close> hands it out: an integer cell converted to the nearest double when
  the frame's common dtype is \<^verbatim>\<open>float64\<close> (an \<^verbatim>\<open>int64\<close> column beside a \<^verbatim>\<open>float64\<close> column and
  no \<^verbatim>\<open>bool\<close> or \<^verbatim>\<open>object\<close> column), any other cell as the frame holds it. When the column
  names are accepted and connect, cursor and prepare return, exactly that one batch is
  submitted. When the common dtype is not \<^verbatim>\<open>float64\<close>, or the frame holds no integer cell,
  the batch is the frame's cells with NaN replaced by null and nothing else changed.
\<close>

theorem upload_submits_normalized_rows:
  "set (submitted (fst (pandasBulkInsert ucd self d df tableName columnNames up []))) \<subseteq>
     {map (map (\<lambda>v. nan_to_null (astype (find_common_type (dtypes df)) v))) (data df)} \<and>
   (column_names df columnNames = Inr cs \<and> connect_raises d (cStr self) = None \<and>
    cursor_raises d = None \<and> prepare_raises d (curString ucd tableName cs up) = None \<longrightarrow>
    submitted (fst (pandasBulkInsert ucd self d df tableName columnNames up [])) =
      [map (map (\<lambda>v. nan_to_null (astype (find_common_type (dtypes df)) v))) (data df)]) \<and>
   (find_common_type (dtypes df) \<noteq> Float64 \<or>
    list_all (list_all (\<lambda>v. \<not> is_int v)) (data df) \<longrightarrow>
    map (map (\<lambda>v. nan_to_null (astype (find_common_type (dtypes df)) v))) (data df) =
      map (map nan_to_null) (data df))"
proof -
  let ?B = "map (map (\<lambda>v. nan_to_null (astype (find_common_type (dtypes df)) v))) (data df)"
  have B: "map (map nan_to_null) (frame_values df) = ?B"
    by (simp add: frame_values_def comp_def)
  have same: "?B = map (map nan_to_null) (data df)"
    if "find_common_type (dtypes df) \<noteq> Float64 \<or>
        list_all (list_all (\<lambda>v. \<not> is_int v)) (data df)"
    using frame_values_unchanged [OF that] B by simp
  show ?thesis
  proof (cases "column_names df columnNames")
    case (Inl e)
    then show ?thesis using same by (simp add: pandasBulkInsert_rejected)
  next
    case (Inr cs')
    then show ?thesis
      using same by (simp add: pandasBulkInsert_accepted B io_defs split: option.splits)
  qed
qed

theorem upload_submits_normalized_rows_witness:
  "submitted (fst (pandasBulkInsert example_ucd example_command ok_driver example_frame ''T''
       (Some [''id'', ''name'']) False [])) =
     [[[PyInt 1, PyStr ''x''], [PyInt 2, PyNone]]] \<and>
   find_common_type (dtypes example_frame) \<noteq> Float64"
  using upload_submits_normalized_rows [of example_ucd example_command ok_driver example_frame
      "''T''" "Some [''id'', ''name'']" False "[''id'', ''name'']"]
  by (simp add: column_names_example)
     (simp add: example_frame_def ok_driver_def nan_to_null_def find_common_type_def)

theorem upload_cells_unchanged_counterexample:
  "submitted (fst (pandasBulkInsert example_ucd example_command ok_driver mixed_frame ''T''
       None False [])) =
     [[[PyFloat (PyFinite 9007199254740992), PyFloat (PyFinite (1 / 2))]]] \<and>
   submitted (fst (pandasBulkInsert example_ucd example_command ok_driver mixed_frame ''T''
       None False [])) \<noteq>
     [[[PyInt 9007199254740993, PyFloat (PyFinite (1 / 2))]]]"
  by (simp add: pandasBulkInsert_accepted [OF column_names_example(3)] frame_values_examples
      io_defs ok_driver_def nan_to_null_def)

text \<open>
  C3. The null normalizer returns null for a value that does not equal itself, and the only
  such value is the float NaN; it returns every value that equals itself unchanged, among
  them 0, the empty string and false.
\<close>

theorem castToNone_normalizes:
  "(py_ne v v \<longrightarrow> castToNone v = PyNone) \<and>
   (py_eq v v \<longrightarrow> castToNone v = v) \<and>
   (py_ne v v \<longleftrightarrow> v = PyFloat PyNaN) \<and>
   castToNone (PyFloat PyNaN) = PyNone \<and>
   castToNone (PyInt 0) = PyInt 0 \<and>
   castToNone (PyStr '''') = PyStr '''' \<and>
   castToNone (PyBool False) = PyBool False"
  by (simp add: castToNone_def py_ne_self py_ne_def)

theorem castToNone_normalizes_witness:
  "py_ne (PyFloat PyNaN) (PyFloat PyNaN) \<and> castToNone (PyFloat PyNaN) = PyNone \<and>
   py_eq (PyFloat (PyFinite 0)) (PyFloat (PyFinite 0)) \<and>
   castToNone (PyFloat (PyFinite 0)) = PyFloat (PyFinite 0)"
  using castToNone_normalizes [of "PyFloat PyNaN"] castToNone_normalizes [of "PyFloat (PyFinite 0)"]
  by (simp add: py_ne_def)

text \<open>
  C4. For a non-empty list of n column names the column-list formatter returns the
  parenthesized, comma-separated list of the n names, each double-quoted, in the order
  given, and the parenthesized, comma-separated list of the placeholders \<^verbatim>\<open>:1\<close> to \<^verbatim>\<open>:n\<close>.
\<close>

theorem buildInsertStrObj_lists:
  "colNames \<noteq> [] \<Longrightarrow>
   buildInsertStrObj ucd colNames False =
     (''('' @ join '','' (map quoted colNames) @ '')'',
      ''('' @ join '','' (map placeholder [1..<Suc (length colNames)]) @ '')'')"
  using buildInsertStrObj_fragments [of colNames ucd]
  by (simp add: quoted_list_def placeholder_list_def)

theorem buildInsertStrObj_lists_witness:
  \<open>[''A'', ''B''] \<noteq> [] \<and>
   buildInsertStrObj example_ucd [''A'', ''B''] False = (''("A","B")'', ''(:1,:2)'')\<close>
  using buildInsertStrObj_lists [of "[''A'', ''B'']" example_ucd]
  by (simp add: quoted_def placeholder_def str_digits)

text \<open>
  C5. When a list of column names is given whose length differs from the number of columns
  of the data frame, the upload fails on its assertion (the code's validation error) and
  has called nothing of the driver: no connect, nor any other call.
\<close>

theorem upload_length_mismatch_fails_before_connect:
  "length cs \<noteq> snd (shape df) \<Longrightarrow>
   pandasBulkInsert ucd self d df tableName (Some cs) up [] = ([], Inl AssertionError)"
  by (simp add: pandasBulkInsert_rejected column_names_def)

theorem upload_length_mismatch_fails_before_connect_witness:
  "length [''id''] \<noteq> snd (shape example_frame) \<and>
   pandasBulkInsert example_ucd example_command ok_driver example_frame ''T'' (Some [''id''])
       False [] =
     ([], Inl AssertionError)"
  using upload_length_mismatch_fails_before_connect [of "[''id'']" example_frame example_ucd
      example_command ok_driver "''T''" False]
  by (simp add: shape_def example_frame_def)

text \<open>
  C6. When the column names are accepted, connect, cursor and prepare return and the
  driver's \<^verbatim>\<open>executemany\<close> raises, the upload ends at that call: the driver's own error
  reaches the caller as it is, and neither commit nor the close of the cursor or of the
  connection is called. The upload has no guaranteed release: on any call, the cursor is
  closed exactly when the column names were accepted and connect, cursor, prepare,
  \<^verbatim>\<open>executemany\<close> and commit all returned, and the connection is closed exactly when,
  besides, the close of the cursor returned.
\<close>

theorem upload_execute_failure_propagates_unreleased:
  "(column_names df columnNames =
      Inr (case columnNames of None \<Rightarrow> columns df | Some cs \<Rightarrow> cs) \<and>
    connect_raises d (cStr self) = None \<and> cursor_raises d = None \<and>
    prepare_raises d (curString ucd tableName
       (case columnNames of None \<Rightarrow> columns df | Some cs \<Rightarrow> cs) up) = None \<and>
    executemany_raises d (map (map nan_to_null) (frame_values df)) = Some msg \<longrightarrow>
    pandasBulkInsert ucd self d df tableName columnNames up [] =
      ([Connect (cStr self), Cursor,
        Prepare (curString ucd tableName
           (case columnNames of None \<Rightarrow> columns df | Some cs \<Rightarrow> cs) up),
        ExecuteMany None (map (map nan_to_null) (frame_values df))],
       Inl (DatabaseError msg))) \<and>
   (CursorClose \<in> set (fst (pandasBulkInsert ucd self d df tableName columnNames up [])) \<longleftrightarrow>
      column_names df columnNames =
        Inr (case columnNames of None \<Rightarrow> columns df | Some cs \<Rightarrow> cs) \<and>
      connect_raises d (cStr self) = None \<and> cursor_raises d = None \<and>
      prepare_raises d (curString ucd tableName
         (case columnNames of None \<Rightarrow> columns df | Some cs \<Rightarrow> cs) up) = None \<and>
      executemany_raises d (map (map nan_to_null) (frame_values df)) = None \<and>
      commit_raises d = None) \<and>
   (ConnectionClose \<in> set (fst (pandasBulkInsert ucd self d df tableName columnNames up [])) \<longleftrightarrow>
      column_names df columnNames =
        Inr (case columnNames of None \<Rightarrow> columns df | Some cs \<Rightarrow> cs) \<and>
      connect_raises d (cStr self) = None \<and> cursor_raises d = None \<and>
      prepare_raises d (curString ucd tableName
         (case columnNames of None \<Rightarrow> columns df | Some cs \<Rightarrow> cs) up) = None \<and>
      executemany_raises d (map (map nan_to_null) (frame_values df)) = None \<and>
      commit_raises d = None \<and> cursor_close_raises d = None)"
proof -
  let ?cs = "case columnNames of None \<Rightarrow> columns df | Some cs \<Rightarrow> cs"
  from column_names_cases [of df columnNames] show ?thesis
  proof
    assume rejected: "column_names df columnNames = Inl AssertionError"
    then have "column_names df columnNames \<noteq> Inr ?cs" by simp
    then show ?thesis
      by (simp add: pandasBulkInsert_rejected [OF rejected])
  next
    assume accepted: "column_names df columnNames = Inr ?cs"
    show ?thesis
      unfolding pandasBulkInsert_accepted [OF accepted]
      by (simp add: accepted io_defs split: option.splits)
  qed
qed

theorem upload_execute_failure_propagates_unreleased_witness:
  \<open>pandasBulkInsert example_ucd example_command failing_driver example_frame ''T''
       (Some [''id'', ''name'']) False [] =
     ([Connect ''scott/tiger@orcl'', Cursor,
       Prepare ''INSERT INTO T ("id","name") VALUES (:1,:2)'',
       ExecuteMany None [[PyInt 1, PyStr ''x''], [PyInt 2, PyNone]]],
      Inl (DatabaseError ''ORA-00001: unique constraint violated'')) \<and>
   CursorClose \<in> set (fst (pandasBulkInsert example_ucd example_command ok_driver
       example_frame ''T'' (Some [''id'', ''name'']) False [])) \<and>
   ConnectionClose \<in> set (fst (pandasBulkInsert example_ucd example_command ok_driver
       example_frame ''T'' (Some [''id'', ''name'']) False []))\<close>
  using upload_execute_failure_propagates_unreleased [of example_frame
      "Some [''id'', ''name'']" failing_driver example_command example_ucd "''T''" False
      "''ORA-00001: unique constraint violated''"]
    upload_execute_failure_propagates_unreleased [of example_frame
      "Some [''id'', ''name'']" ok_driver example_command example_ucd "''T''" False
      "''ORA-00001: unique constraint violated''"]
  by (simp add: column_names_example frame_values_examples curString_example)
     (simp add: example_command_def failing_driver_def ok_driver_def nan_to_null_def)

theorem upload_execute_failure_closes_once_counterexample:
  "executemany_raises failing_driver [[PyInt 1, PyStr ''x''], [PyInt 2, PyNone]] \<noteq> None \<and>
   count_list (fst (pandasBulkInsert example_ucd example_command failing_driver example_frame
       ''T'' (Some [''id'', ''name'']) False [])) ConnectionClose \<noteq> 1 \<and>
   count_list (fst (pandasBulkInsert example_ucd example_command failing_driver example_frame
       ''T'' (Some [''id'', ''name'']) False [])) CursorClose \<noteq> 1"
  by (simp add: pandasBulkInsert_accepted [OF column_names_example(1)] io_defs
      failing_driver_def ok_driver_def)

text \<open>
  C7. A call of the upload that returns without an error has made exactly these driver
  calls, each once and in this order: connect and open the cursor, prepare the generated
  statement, one \<^verbatim>\<open>executemany\<close> with all the normalized rows, commit, close the cursor and
  close the connection.
\<close>

theorem upload_success_call_sequence:
  assumes "snd (pandasBulkInsert ucd self d df tableName columnNames up []) = Inr ()"
  shows "fst (pandasBulkInsert ucd self d df tableName columnNames up []) =
           [Connect (cStr self), Cursor,
            Prepare (curString ucd tableName
                       (case columnNames of None \<Rightarrow> columns df | Some cs \<Rightarrow> cs) up),
            ExecuteMany None (map (map nan_to_null) (frame_values df)),
            Commit, CursorClose, ConnectionClose]"
proof -
  let ?cs = "case columnNames of None \<Rightarrow> columns df | Some cs \<Rightarrow> cs"
  have "column_names df columnNames \<noteq> Inl AssertionError"
    using assms by (auto simp: pandasBulkInsert_rejected)
  then have "column_names df columnNames = Inr ?cs"
    using column_names_cases [of df columnNames] by simp
  then show ?thesis
    using assms by (simp add: pandasBulkInsert_accepted io_defs split: option.splits)
qed

theorem upload_success_call_sequence_witness:
  \<open>snd (pandasBulkInsert example_ucd example_command ok_driver example_frame ''T''
       (Some [''id'', ''name'']) False []) = Inr () \<and>
   fst (pandasBulkInsert example_ucd example_command ok_driver example_frame ''T''
       (Some [''id'', ''name'']) False []) =
     [Connect ''scott/tiger@orcl'', Cursor,
      Prepare ''INSERT INTO T ("id","name") VALUES (:1,:2)'',
      ExecuteMany None [[PyInt 1, PyStr ''x''], [PyInt 2, PyNone]],
      Commit, CursorClose, ConnectionClose]\<close>
proof -
  have ok: "snd (pandasBulkInsert example_ucd example_command ok_driver example_frame ''T''
       (Some [''id'', ''name'']) False []) = Inr ()"
    by (simp add: pandasBulkInsert_accepted [OF column_names_example(1)] io_defs ok_driver_def)
  show ?thesis
    using ok upload_success_call_sequence [OF ok]
    by (simp add: frame_values_examples curString_example example_command_def nan_to_null_def)
qed

text \<open>
  C8. With the upper-casing flag set, the quoted column list holds the upper-cased form of
  each name given, in place; with the flag clear it holds the names as given; the
  placeholder list is the same either way. The upper-cased form of an ASCII name has each
  letter a-z replaced by its capital and every other character kept; a character beyond
  ASCII is replaced by its uppercase mapping in the interpreter's Unicode database.
\<close>

theorem buildInsertStrObj_upper_flag:
  "snd (buildInsertStrObj ucd colNames True) = snd (buildInsertStrObj ucd colNames False) \<and>
   (colNames \<noteq> [] \<longrightarrow>
      fst (buildInsertStrObj ucd colNames True) =
        ''('' @ join '','' (map quoted (map (upper ucd) colNames)) @ '')'' \<and>
      fst (buildInsertStrObj ucd colNames False) =
        ''('' @ join '','' (map quoted colNames) @ '')'') \<and>
   (colNames \<noteq> [] \<and> list_all (list_all is_ascii) colNames \<longrightarrow>
      fst (buildInsertStrObj ucd colNames True) =
        ''('' @ join '','' (map quoted (map (map ascii_capital) colNames)) @ '')'') \<and>
   (list_all is_ascii a \<and> \<not> is_ascii c \<and> length t = utf8_length c - 1 \<longrightarrow>
      upper ucd (a @ c # t @ s) = map ascii_capital a @ ucd (c # t) @ upper ucd s)"
proof -
  have flag: "fst (buildInsertStrObj ucd colNames True) =
                ''('' @ join '','' (map quoted (map (upper ucd) colNames)) @ '')'' \<and>
              fst (buildInsertStrObj ucd colNames False) =
                ''('' @ join '','' (map quoted colNames) @ '')''"
    if "colNames \<noteq> []"
  proof -
    from that have "map (upper ucd) colNames \<noteq> []" by simp
    from buildInsertStrObj_fragments [OF this, of ucd] buildInsertStrObj_fragments [OF that, of ucd]
    show ?thesis
      by (simp add: buildInsertStrObj_upper quoted_list_def)
  qed
  have ascii: "map (upper ucd) colNames = map (map ascii_capital) colNames"
    if "list_all (list_all is_ascii) colNames"
    using that by (induction colNames) (simp_all add: upper_ascii)
  have ascii_flag: "fst (buildInsertStrObj ucd colNames True) =
                ''('' @ join '','' (map quoted (map (map ascii_capital) colNames)) @ '')''"
    if "colNames \<noteq> [] \<and> list_all (list_all is_ascii) colNames"
    using that flag ascii by simp
  have nums: "snd (buildInsertStrObj ucd colNames True) = snd (buildInsertStrObj ucd colNames False)"
  proof (cases "colNames = []")
    case True
    then show ?thesis by (simp add: buildInsertStrObj_def)
  next
    case False
    then have "map (upper ucd) colNames \<noteq> []" by simp
    from buildInsertStrObj_fragments [OF this, of ucd] buildInsertStrObj_fragments [OF False, of ucd]
    show ?thesis
      by (simp add: buildInsertStrObj_upper)
  qed
  have beyond: "upper ucd (a @ c # t @ s) = map ascii_capital a @ ucd (c # t) @ upper ucd s"
    if "list_all is_ascii a \<and> \<not> is_ascii c \<and> length t = utf8_length c - 1"
    using that by (simp add: upper_ascii_append)
  show ?thesis
    using flag ascii_flag nums beyond by blast
qed

theorem buildInsertStrObj_upper_flag_witness:
  \<open>buildInsertStrObj example_ucd [''id'', ''stra'' @ [CHR 0xC3, CHR 0x9F] @ ''e''] True =
     (''("ID","STRASSE")'', ''(:1,:2)'') \<and>
   buildInsertStrObj example_ucd [''id'', ''Name_2''] True = (''("ID","NAME_2")'', ''(:1,:2)'') \<and>
   buildInsertStrObj example_ucd [''id'', ''Name_2''] False = (''("id","Name_2")'', ''(:1,:2)'') \<and>
   list_all (list_all is_ascii) [''id'', ''Name_2''] \<and>
   upper example_ucd (''stra'' @ [CHR 0xC3, CHR 0x9F] @ ''e'') = ''STRASSE''\<close>
proof -
  have nums:
    "snd (buildInsertStrObj example_ucd [''id'', ''stra'' @ [CHR 0xC3, CHR 0x9F] @ ''e''] False) =
       ''(:1,:2)''"
    "snd (buildInsertStrObj example_ucd [''id'', ''Name_2''] False) = ''(:1,:2)''"
    by (simp_all add: buildInsertStrObj_fragments placeholder_list_def placeholder_def str_digits)
  show ?thesis
    using nums
      buildInsertStrObj_upper_flag [of example_ucd
        "[''id'', ''stra'' @ [CHR 0xC3, CHR 0x9F] @ ''e'']" "''stra''" "CHR 0xC3" "[CHR 0x9F]" "''e''"]
      buildInsertStrObj_upper_flag [of example_ucd "[''id'', ''Name_2'']" "''stra''" "CHR 0xC3"
        "[CHR 0x9F]" "''e''"]
    by (simp add: prod_eq_iff quoted_def is_ascii_def utf8_length_def upper_char_def
        example_ucd_def ascii_capital_def)
qed

text \<open>
  C9. For the empty list of column names the column-list formatter does not fail: it
  returns the two fragments \<^verbatim>\<open>)\<close> and \<^verbatim>\<open>)\<close>, each a closing parenthesis with no opening one,
  whatever the flag.
\<close>

theorem buildInsertStrObj_empty:
  "buildInsertStrObj ucd [] ToUpper = ('')'', '')'')"
  by (simp add: buildInsertStrObj_def)

text \<open>
  C10. When no column names are given, the upload makes no length check, so the call never
  fails on the assertion, and it inserts into the data frame's own column names: once the
  connection and the cursor are open, the statement prepared is \<^verbatim>\<open>INSERT INTO\<close>, the table
  name, the parenthesized list of the frame's column names in the frame's order, each
  double-quoted (upper-cased first when the flag is set), \<^verbatim>\<open>VALUES\<close> and the placeholders
  \<^verbatim>\<open>:1\<close> to \<^verbatim>\<open>:n\<close> for the frame's n columns; for a frame with no columns the two lists
  are a closing parenthesis each.
\<close>

theorem upload_default_column_names:
  "snd (pandasBulkInsert ucd self d df tableName None up []) \<noteq> Inl AssertionError \<and>
   (columns df \<noteq> [] \<longrightarrow>
    prepared (fst (pandasBulkInsert ucd self d df tableName None up [])) =
      (if connect_raises d (cStr self) = None \<and> cursor_raises d = None
       then [''INSERT INTO '' @ tableName @ '' '' @
             ''('' @ join '','' (map quoted (if up then map (upper ucd) (columns df)
                                              else columns df)) @ '')'' @
             '' VALUES '' @
             ''('' @ join '','' (map placeholder [1..<Suc (length (columns df))]) @ '')'']
       else [])) \<and>
   (columns df = [] \<longrightarrow>
    prepared (fst (pandasBulkInsert ucd self d df tableName None up [])) =
      (if connect_raises d (cStr self) = None \<and> cursor_raises d = None
       then [''INSERT INTO '' @ tableName @ '' ) VALUES )''] else []))"
proof -
  have cols: "column_names df None = Inr (columns df)"
    by (simp add: column_names_def)
  have prep: "prepared (fst (pandasBulkInsert ucd self d df tableName None up [])) =
      (if connect_raises d (cStr self) = None \<and> cursor_raises d = None
       then [curString ucd tableName (columns df) up] else [])"
    by (simp add: pandasBulkInsert_accepted [OF cols] io_defs split: option.splits)
  have res: "snd (pandasBulkInsert ucd self d df tableName None up []) \<noteq> Inl AssertionError"
    by (simp add: pandasBulkInsert_accepted [OF cols] io_defs split: option.splits)
  have full: "curString ucd tableName (columns df) up =
      ''INSERT INTO '' @ tableName @ '' '' @
      ''('' @ join '','' (map quoted (if up then map (upper ucd) (columns df)
                                       else columns df)) @ '')'' @
      '' VALUES '' @
      ''('' @ join '','' (map placeholder [1..<Suc (length (columns df))]) @ '')''"
    if "columns df \<noteq> []"
    using curString_fragments [OF that, of ucd tableName up]
    by (simp add: quoted_list_def placeholder_list_def)
  have empty: "curString ucd tableName (columns df) up = ''INSERT INTO '' @ tableName @ '' ) VALUES )''"
    if "columns df = []"
    using that by (simp add: curString_empty)
  show ?thesis
    using res prep full empty by simp
qed

theorem upload_default_column_names_witness:
  \<open>columns example_frame \<noteq> [] \<and>
   prepared (fst (pandasBulkInsert example_ucd example_command ok_driver example_frame ''T''
       None False [])) =
     [''INSERT INTO T ("id","name") VALUES (:1,:2)'']\<close>
  using upload_default_column_names [of example_ucd example_command ok_driver example_frame
      "''T''" False]
  by (simp add: example_frame_def ok_driver_def quoted_def placeholder_def str_digits)

end
